theory Spec2Isabelle
  imports Complex_Main "HOL-Library.AList"
begin

section \<open>JavaScript values and the wire\<close>

text \<open>
  Both programs exchange JSON texts over a WebSocket. A value is what \<open>JSON.parse\<close>
  returns: null, a boolean, a finite number, a string, an array, or an object whose
  properties are kept in insertion order. \<open>JUndefined\<close> is what reading an absent
  property gives; \<open>JSON.parse\<close> never returns it. A number is modelled by its numeric
  value; the handlers only ever test a number for being zero.
\<close>

datatype jsval =
    JUndefined
  | JNull
  | JBool bool
  | JNum rat
  | JStr string
  | JArr "jsval list"
  | JObj "(string \<times> jsval) list"

datatype error = SyntaxError | TypeError

text \<open>
  A frame received from the peer is a text that is either not JSON at all, or the JSON
  text of a value. A frame sent with \<open>ws.send(JSON.stringify(v))\<close> is recorded as the
  value \<open>v\<close> it serialises.
\<close>

datatype payload = NotJSON | Json jsval

definition JSON_parse :: "payload \<Rightarrow> error + jsval" where
  "JSON_parse data = (case data of NotJSON \<Rightarrow> Inl SyntaxError | Json v \<Rightarrow> Inr v)"

text \<open>
  Reading a property \<open>v.k\<close>: a \<open>TypeError\<close> on null and undefined, the stored value on an
  object that has the property, and undefined otherwise. The handlers read only
  \<open>type\<close>, \<open>user\<close>, \<open>message\<close>, \<open>timestamp\<close> and \<open>username\<close>, none of which a
  primitive, an array or \<open>Object.prototype\<close> provides.
\<close>

fun get_prop :: "jsval \<Rightarrow> string \<Rightarrow> error + jsval" where
  "get_prop JUndefined k = Inl TypeError"
| "get_prop JNull k = Inl TypeError"
| "get_prop (JObj fs) k = (case map_of fs k of None \<Rightarrow> Inr JUndefined | Some v \<Rightarrow> Inr v)"
| "get_prop v k = Inr JUndefined"

text \<open>JavaScript truthiness, as \<open>&&\<close> and \<open>if\<close> test it.\<close>

fun truthy :: "jsval \<Rightarrow> bool" where
  "truthy JUndefined = False"
| "truthy JNull = False"
| "truthy (JBool b) = b"
| "truthy (JNum n) = (n \<noteq> 0)"
| "truthy (JStr s) = (s \<noteq> [])"
| "truthy (JArr xs) = True"
| "truthy (JObj fs) = True"

text \<open>
  The assignment \<open>messageData.timestamp = now\<close> of the server (a script in sloppy
  mode): a \<open>TypeError\<close> on null, a silent no-op on a boolean, number or string, a property
  that \<open>JSON.stringify\<close> does not serialise on an array, and on an object the property is
  overwritten in place or appended.
\<close>

fun set_timestamp :: "string \<Rightarrow> jsval \<Rightarrow> error + jsval" where
  "set_timestamp now JUndefined = Inl TypeError"
| "set_timestamp now JNull = Inl TypeError"
| "set_timestamp now (JObj fs) = Inr (JObj (AList.update ''timestamp'' (JStr now) fs))"
| "set_timestamp now v = Inr v"

section \<open>Connections\<close>

datatype ready_state = CONNECTING | OPEN | CLOSING | CLOSED

text \<open>A WebSocket object: its \<open>readyState\<close> and the frames handed to \<open>send\<close> so far.\<close>

record socket =
  readyState :: ready_state
  sent :: "jsval list"

definition ws_send :: "jsval \<Rightarrow> socket \<Rightarrow> socket" where
  "ws_send m sock = sock\<lparr>sent := sent sock @ [m]\<rparr>"

text \<open>\<open>close()\<close> does nothing on a socket that is closing or closed.\<close>

definition ws_close :: "socket \<Rightarrow> socket" where
  "ws_close sock =
     (if readyState sock = CLOSING \<or> readyState sock = CLOSED then sock
      else sock\<lparr>readyState := CLOSING\<rparr>)"

text \<open>Console output and alerts: the local reports of either program.\<close>

datatype report = Log string | Warn string | Err string | Alert string

section \<open>The relay server (\<open>server/server.js\<close>)\<close>

type_synonym conn = nat

text \<open>
  \<open>clients\<close> is a JavaScript \<open>Set\<close>: insertion ordered, without duplicates. The
  connection objects themselves live in a store addressed by their handle.
\<close>

record relay =
  clients :: "conn list"
  sockets :: "conn \<Rightarrow> socket"
  server_log :: "report list"

definition set_add :: "conn \<Rightarrow> conn list \<Rightarrow> conn list" where
  "set_add c cs = (if c \<in> set cs then cs else cs @ [c])"

definition set_delete :: "conn \<Rightarrow> conn list \<Rightarrow> conn list" where
  "set_delete c cs = removeAll c cs"

definition welcome_message :: "string \<Rightarrow> jsval" where
  "welcome_message now = JObj [(''type'', JStr ''system''),
                       (''message'', JStr ''Connected to chat server!''),
                       (''timestamp'', JStr now)]"

text \<open>\<open>clients.forEach\<close> of the message handler: send to every client that is open.\<close>

fun forEach_send :: "jsval \<Rightarrow> conn list \<Rightarrow> (conn \<Rightarrow> socket) \<Rightarrow> (conn \<Rightarrow> socket)" where
  "forEach_send m [] h = h"
| "forEach_send m (client # cs) h =
     forEach_send m cs
       (if readyState (h client) = OPEN then h(client := ws_send m (h client)) else h)"

definition on_connection :: "string \<Rightarrow> conn \<Rightarrow> relay \<Rightarrow> relay" where
  "on_connection now ws s =
     s\<lparr>server_log := server_log s @ [Log ''New client connected''],
       clients := set_add ws (clients s),
       sockets := (sockets s)(ws := ws_send (welcome_message now) (sockets s ws))\<rparr>"

definition on_message :: "string \<Rightarrow> conn \<Rightarrow> payload \<Rightarrow> relay \<Rightarrow> relay" where
  "on_message now ws data s =
     (let s1 = s\<lparr>server_log := server_log s @ [Log ''Received message'']\<rparr> in
      case JSON_parse data of
        Inl e \<Rightarrow> s1\<lparr>server_log := server_log s1 @ [Err ''Error processing message'']\<rparr>
      | Inr messageData \<Rightarrow>
          (case set_timestamp now messageData of
             Inl e \<Rightarrow> s1\<lparr>server_log := server_log s1 @ [Err ''Error processing message'']\<rparr>
           | Inr stamped \<Rightarrow> s1\<lparr>sockets := forEach_send stamped (clients s1) (sockets s1)\<rparr>))"

definition on_close :: "conn \<Rightarrow> relay \<Rightarrow> relay" where
  "on_close ws s =
     s\<lparr>server_log := server_log s @ [Log ''Client disconnected''],
       clients := set_delete ws (clients s)\<rparr>"

definition on_error :: "conn \<Rightarrow> relay \<Rightarrow> relay" where
  "on_error ws s =
     s\<lparr>server_log := server_log s @ [Err ''WebSocket error''],
       clients := set_delete ws (clients s)\<rparr>"

text \<open>
  The events the \<open>ws\<close> library delivers. It hands a connection over in state \<open>OPEN\<close>,
  emits \<open>close\<close> once the connection is \<open>CLOSED\<close>, and may change a connection's
  \<open>readyState\<close> at any time in between (\<open>Transport\<close>).
\<close>

datatype event =
    Connection conn string
  | Message conn string payload
  | Close conn
  | Error conn
  | Transport conn ready_state

definition set_ready :: "conn \<Rightarrow> ready_state \<Rightarrow> relay \<Rightarrow> relay" where
  "set_ready c r s = s\<lparr>sockets := (sockets s)(c := (sockets s c)\<lparr>readyState := r\<rparr>)\<rparr>"

fun step :: "event \<Rightarrow> relay \<Rightarrow> relay" where
  "step (Connection c now) s = on_connection now c (set_ready c OPEN s)"
| "step (Message c now data) s = on_message now c data s"
| "step (Close c) s = on_close c (set_ready c CLOSED s)"
| "step (Error c) s = on_error c s"
| "step (Transport c r) s = set_ready c r s"

fun run :: "event list \<Rightarrow> relay \<Rightarrow> relay" where
  "run [] s = s"
| "run (e # es) s = run es (step e s)"

definition server_start :: relay where
  "server_start =
     \<lparr>clients = [], sockets = (\<lambda>c. \<lparr>readyState = CONNECTING, sent = []\<rparr>),
      server_log = [Log ''WebSocket server started'']\<rparr>"

text \<open>The frames sent to connection \<open>k\<close> between state \<open>s\<close> and a later state \<open>s'\<close>.\<close>

definition delivered :: "relay \<Rightarrow> relay \<Rightarrow> conn \<Rightarrow> jsval list" where
  "delivered s s' k = drop (length (sent (sockets s k))) (sent (sockets s' k))"

text \<open>What a relay is, its console apart: the registry and the connections.\<close>

definition core :: "relay \<Rightarrow> conn list \<times> (conn \<Rightarrow> socket)" where
  "core s = (clients s, sockets s)"

section \<open>The client session (\<open>client/src/App.jsx\<close>)\<close>

datatype conn_status = Disconnected | Connecting | Connected

text \<open>
  The state of the \<open>App\<close> component: its React state variables, the \<open>ws\<close> ref
  (\<open>None\<close> while \<open>ws.current\<close> is null), the browser's \<open>localStorage\<close>, and what was
  written to the console or shown in an alert. A display record of \<open>messages\<close> is a
  JavaScript object.
\<close>

record session =
  messages :: "jsval list"
  inputMessage :: string
  username :: string
  hasJoined :: bool
  connectionStatus :: conn_status
  ws_current :: "socket option"
  localStorage :: "string \<Rightarrow> string option"
  client_log :: "report list"

text \<open>
  \<open>String.prototype.trim\<close> removes white space and line terminators at both ends. A
  character of \<^typ>\<open>char\<close> stands for the code unit of the same number; among these,
  the ones that \<open>trim\<close> removes are tab, line feed, vertical tab, form feed, carriage
  return, space and no-break space.
\<close>

definition is_space :: "char \<Rightarrow> bool" where
  "is_space c = (c \<in> set [CHR 0x09, CHR 0x0A, CHR 0x0B, CHR 0x0C, CHR 0x0D, CHR 0x20, CHR 0xA0])"

definition trim :: "string \<Rightarrow> string" where
  "trim s = rev (dropWhile is_space (rev (dropWhile is_space s)))"

text \<open>A property read on a value already known not to be null: it cannot throw.\<close>

definition read_prop :: "jsval \<Rightarrow> string \<Rightarrow> jsval" where
  "read_prop v k = (case get_prop v k of Inl e \<Rightarrow> JUndefined | Inr x \<Rightarrow> x)"

text \<open>The own properties that an object spread \<open>{...v}\<close> copies.\<close>

definition own_props :: "jsval \<Rightarrow> (string \<times> jsval) list" where
  "own_props v = (case v of JObj fs \<Rightarrow> fs | _ \<Rightarrow> [])"

definition say :: "report \<Rightarrow> session \<Rightarrow> session" where
  "say r s = s\<lparr>client_log := client_log s @ [r]\<rparr>"

definition session_start :: "(string \<Rightarrow> string option) \<Rightarrow> session" where
  "session_start storage =
     \<lparr>messages = [], inputMessage = [],
      username = (case storage ''chatUsername'' of None \<Rightarrow> [] | Some u \<Rightarrow> u),
      hasJoined = (storage ''chatHasJoined'' = Some ''true''),
      connectionStatus = Disconnected, ws_current = None,
      localStorage = storage, client_log = []\<rparr>"

text \<open>The body of the connection effect, and its cleanup.\<close>

definition connect_effect :: "session \<Rightarrow> session" where
  "connect_effect s =
     (if \<not> hasJoined s then s
      else (say (Log ''Attempting to connect to WebSocket server'') s)
             \<lparr>connectionStatus := Connecting,
              ws_current := Some \<lparr>readyState = CONNECTING, sent = []\<rparr>\<rparr>)"

definition effect_cleanup :: "session \<Rightarrow> session" where
  "effect_cleanup s =
     (case ws_current s of
        None \<Rightarrow> s
      | Some sock \<Rightarrow> (say (Log ''Closing WebSocket connection'') s)
                       \<lparr>ws_current := Some (ws_close sock)\<rparr>)"

definition onopen :: "session \<Rightarrow> session" where
  "onopen s = (say (Log ''Connected to WebSocket server'') s)\<lparr>connectionStatus := Connected\<rparr>"

definition onmessage :: "payload \<Rightarrow> session \<Rightarrow> session" where
  "onmessage data s =
     (let s1 = say (Log ''Received message from server'') s in
      case JSON_parse data of
        Inl e \<Rightarrow> say (Err ''Error parsing message'') s1
      | Inr messageData \<Rightarrow>
          (let s2 = say (Log ''Parsed message data'') s1 in
           case get_prop messageData ''type'' of
             Inl e \<Rightarrow> say (Err ''Error parsing message'') s2
           | Inr ty \<Rightarrow>
               if ty = JStr ''system'' then
                 s2\<lparr>messages := messages s2 @
                      [JObj [(''user'', JStr ''System''),
                             (''message'', read_prop messageData ''message''),
                             (''timestamp'', read_prop messageData ''timestamp''),
                             (''isMine'', JBool False),
                             (''isSystem'', JBool True)]]\<rparr>
               else if ty = JStr ''register'' then
                 say (Log ''User registered'') s2
               else if truthy (read_prop messageData ''user'') \<and> truthy (read_prop messageData ''message'') then
                 (let isMine = (read_prop messageData ''user'' = JStr (username s2));
                      newMessages = messages s2 @
                        [JObj (AList.update ''isMine'' (JBool isMine) (own_props messageData))]
                  in (say (Log ''Updated messages'') s2)\<lparr>messages := newMessages\<rparr>)
               else say (Warn ''Unknown message format'') s2))"

definition onclose :: "session \<Rightarrow> session" where
  "onclose s =
     (say (Log ''Disconnected from WebSocket server'') s)\<lparr>connectionStatus := Disconnected\<rparr>"

definition onerror :: "session \<Rightarrow> session" where
  "onerror s = (say (Err ''WebSocket error'') s)\<lparr>connectionStatus := Disconnected\<rparr>"

text \<open>\<open>ws.current?.readyState === WebSocket.OPEN\<close>\<close>

definition socket_open :: "session \<Rightarrow> bool" where
  "socket_open s = (case ws_current s of None \<Rightarrow> False | Some sock \<Rightarrow> readyState sock = OPEN)"

definition sendMessage :: "string \<Rightarrow> session \<Rightarrow> session" where
  "sendMessage now s =
     (if trim (inputMessage s) = [] then s
      else if \<not> socket_open s then say (Alert ''Not connected to server!'') s
      else
        (let messageData = JObj [(''type'', JStr ''message''),
                                 (''user'', JStr (username s)),
                                 (''message'', JStr (trim (inputMessage s))),
                                 (''timestamp'', JStr now)]
         in (say (Log ''Sending message'') s)
              \<lparr>ws_current := map_option (ws_send messageData) (ws_current s),
               inputMessage := []\<rparr>))"

definition joinChat :: "session \<Rightarrow> session" where
  "joinChat s =
     (if trim (username s) \<noteq> [] then
        s\<lparr>localStorage := (localStorage s)(''chatUsername'' \<mapsto> trim (username s),
                                           ''chatHasJoined'' \<mapsto> ''true''),
          hasJoined := True\<rparr>
      else s)"

definition logout :: "session \<Rightarrow> session" where
  "logout s =
     s\<lparr>localStorage := (localStorage s)(''chatUsername'' := None, ''chatHasJoined'' := None),
       hasJoined := False,
       username := [],
       messages := [],
       ws_current := map_option ws_close (ws_current s)\<rparr>"

text \<open>
  What can happen to a session: the user types, joins, sends or logs out; React runs the
  effect or its cleanup; the browser changes the socket's \<open>readyState\<close> or fires one of
  the four socket events, which it can only do once a socket has been created. The
  handlers are attached to the socket object, so an event may also come from an earlier
  socket that a later run of the effect has replaced in \<open>ws.current\<close>.
\<close>

datatype client_event =
    TypeName string
  | TypeInput string
  | JoinChat
  | RunEffect
  | Cleanup
  | SocketState ready_state
  | Opened
  | Received payload
  | Closed
  | Errored
  | SendMessage string
  | Logout

fun client_step :: "client_event \<Rightarrow> session \<Rightarrow> session" where
  "client_step (TypeName n) s = s\<lparr>username := n\<rparr>"
| "client_step (TypeInput t) s = s\<lparr>inputMessage := t\<rparr>"
| "client_step JoinChat s = joinChat s"
| "client_step RunEffect s = connect_effect s"
| "client_step Cleanup s = effect_cleanup s"
| "client_step (SocketState r) s =
     s\<lparr>ws_current := map_option (\<lambda>sock. sock\<lparr>readyState := r\<rparr>) (ws_current s)\<rparr>"
| "client_step Opened s = (if ws_current s = None then s else onopen s)"
| "client_step (Received data) s = (if ws_current s = None then s else onmessage data s)"
| "client_step Closed s = (if ws_current s = None then s else onclose s)"
| "client_step Errored s = (if ws_current s = None then s else onerror s)"
| "client_step (SendMessage now) s = sendMessage now s"
| "client_step Logout s = logout s"

fun client_run :: "client_event list \<Rightarrow> session \<Rightarrow> session" where
  "client_run [] s = s"
| "client_run (e # es) s = client_run es (client_step e s)"

text \<open>What a session is, its console apart.\<close>

definition session_core ::
  "session \<Rightarrow> jsval list \<times> string \<times> string \<times> bool \<times> conn_status \<times> socket option \<times>
     (string \<Rightarrow> string option)" where
  "session_core s =
     (messages s, inputMessage s, username s, hasJoined s, connectionStatus s, ws_current s,
      localStorage s)"

section \<open>Properties of the relay\<close>

lemmas relay_eval = on_connection_def on_message_def on_close_def on_error_def set_ready_def
  set_add_def set_delete_def ws_send_def server_start_def delivered_def JSON_parse_def
  welcome_message_def Let_def

subsection \<open>The broadcast loop\<close>

lemma ws_send_readyState: "readyState (ws_send m sock) = readyState sock"
  by (simp add: ws_send_def)

lemma forEach_send_readyState: "readyState (forEach_send m cs h k) = readyState (h k)"
  by (induction cs arbitrary: h) (simp_all add: ws_send_readyState)

lemma forEach_send_sent:
  "sent (forEach_send m cs h k) =
     sent (h k) @ (if readyState (h k) = OPEN then replicate (count_list cs k) m else [])"
proof (induction cs arbitrary: h)
  case Nil
  show ?case by simp
next
  case (Cons c cs)
  show ?case
    by (simp add: Cons.IH ws_send_def replicate_app_Cons_same)
qed

lemma count_list_distinct: "distinct cs \<Longrightarrow> count_list cs k = (if k \<in> set cs then 1 else 0)"
  by (induction cs) auto

lemma on_message_object:
  "on_message now c (Json (JObj fs)) s =
     s\<lparr>server_log := server_log s @ [Log ''Received message''],
       sockets := forEach_send (JObj (AList.update ''timestamp'' (JStr now) fs)) (clients s) (sockets s)\<rparr>"
  by (simp add: on_message_def JSON_parse_def)

lemma delivered_on_message:
  "delivered s (on_message now c (Json (JObj fs)) s) k =
     (if readyState (sockets s k) = OPEN
      then replicate (count_list (clients s) k) (JObj (AList.update ''timestamp'' (JStr now) fs))
      else [])"
  by (simp add: delivered_def on_message_object forEach_send_sent)

lemma sent_on_message:
  "sent (sockets (on_message now c (Json (JObj fs)) s) k) =
     sent (sockets s k) @ delivered s (on_message now c (Json (JObj fs)) s) k"
  by (simp add: delivered_def on_message_object forEach_send_sent)

lemma on_message_clients: "clients (on_message now c data s) = clients s"
  by (simp add: on_message_def Let_def split: sum.splits)

lemma broadcast_exact:
  assumes "distinct (clients s)"
  shows "delivered s (on_message now c (Json (JObj fs)) s) k =
           (if k \<in> set (clients s) \<and> readyState (sockets s k) = OPEN
            then [JObj (AList.update ''timestamp'' (JStr now) fs)] else [])"
  using assms by (simp add: delivered_on_message count_list_distinct)

lemma stamped_timestamp:
  "get_prop (JObj (AList.update ''timestamp'' (JStr now) fs)) ''timestamp'' = Inr (JStr now)"
  by (simp add: update_conv')

subsection \<open>Runs of the relay\<close>

lemma run_append: "run (xs @ ys) s = run ys (run xs s)"
  by (induction xs arbitrary: s) simp_all

lemma step_member:
  "c \<in> set (clients (step e s)) \<longleftrightarrow>
     (\<exists>t. e = Connection c t) \<or> (c \<in> set (clients s) \<and> e \<noteq> Close c \<and> e \<noteq> Error c)"
  by (cases e)
     (auto simp add: on_message_clients on_connection_def on_close_def on_error_def
        set_ready_def set_add_def set_delete_def)

lemma distinct_step: "distinct (clients s) \<Longrightarrow> distinct (clients (step e s))"
  by (cases e)
     (auto simp add: on_message_clients on_connection_def on_close_def on_error_def
        set_ready_def set_add_def set_delete_def distinct_removeAll)

lemma distinct_run: "distinct (clients s) \<Longrightarrow> distinct (clients (run evs s))"
  by (induction evs arbitrary: s) (simp_all add: distinct_step)

lemma registry_distinct: "distinct (clients (run evs server_start))"
  by (rule distinct_run) (simp add: server_start_def)

lemma accept_split_snoc:
  "(\<exists>pre t post. evs @ [e] = pre @ Connection c t # post \<and> Close c \<notin> set post \<and> Error c \<notin> set post)
     \<longleftrightarrow> (\<exists>t. e = Connection c t) \<or>
       ((\<exists>pre t post. evs = pre @ Connection c t # post \<and> Close c \<notin> set post \<and> Error c \<notin> set post)
         \<and> e \<noteq> Close c \<and> e \<noteq> Error c)" (is "?L \<longleftrightarrow> ?A \<or> (?B \<and> ?C)")
proof
  assume ?L
  then obtain pre t post where eq: "evs @ [e] = pre @ Connection c t # post"
    and ok: "Close c \<notin> set post" "Error c \<notin> set post" by blast
  show "?A \<or> (?B \<and> ?C)"
  proof (cases post rule: rev_cases)
    case Nil
    with eq have "e = Connection c t" by simp
    then show ?thesis by blast
  next
    case (snoc post' e')
    with eq have "evs = pre @ Connection c t # post'" and "e' = e" by simp_all
    moreover from ok snoc have "Close c \<notin> set post'" "Error c \<notin> set post'"
      "e' \<noteq> Close c" "e' \<noteq> Error c" by auto
    ultimately show ?thesis by blast
  qed
next
  assume "?A \<or> (?B \<and> ?C)"
  then show ?L
  proof
    assume ?A
    then obtain t where "e = Connection c t" ..
    then have "evs @ [e] = evs @ Connection c t # [] \<and> Close c \<notin> set [] \<and> Error c \<notin> set []"
      by simp
    then show ?L by blast
  next
    assume bc: "?B \<and> ?C"
    then obtain pre t post where "evs = pre @ Connection c t # post"
      and "Close c \<notin> set post" "Error c \<notin> set post" by blast
    with bc have "evs @ [e] = pre @ Connection c t # (post @ [e]) \<and>
        Close c \<notin> set (post @ [e]) \<and> Error c \<notin> set (post @ [e])" by auto
    then show ?L by blast
  qed
qed

lemma registry_general:
  "c \<in> set (clients (run evs s)) \<longleftrightarrow>
     (\<exists>pre t post. evs = pre @ Connection c t # post \<and> Close c \<notin> set post \<and> Error c \<notin> set post)
     \<or> (c \<in> set (clients s) \<and> Close c \<notin> set evs \<and> Error c \<notin> set evs)"
proof (induction evs rule: rev_induct)
  case Nil
  show ?case by simp
next
  case (snoc e evs)
  define P where "P xs \<longleftrightarrow> (\<exists>pre t post. xs = pre @ Connection c t # post \<and>
      Close c \<notin> set post \<and> Error c \<notin> set post)" for xs
  define Q where "Q xs \<longleftrightarrow> c \<in> set (clients s) \<and> Close c \<notin> set xs \<and> Error c \<notin> set xs" for xs
  define A where "A \<longleftrightarrow> (\<exists>t. e = Connection c t)"
  define C where "C \<longleftrightarrow> e \<noteq> Close c \<and> e \<noteq> Error c"
  have ih: "c \<in> set (clients (run evs s)) \<longleftrightarrow> P evs \<or> Q evs"
    using snoc.IH by (simp only: P_def Q_def)
  have "c \<in> set (clients (run (evs @ [e]) s)) \<longleftrightarrow> A \<or> (c \<in> set (clients (run evs s)) \<and> C)"
    by (simp add: run_append step_member A_def C_def)
  moreover have "P (evs @ [e]) \<longleftrightarrow> A \<or> (P evs \<and> C)"
    unfolding P_def A_def C_def by (rule accept_split_snoc)
  moreover have "Q (evs @ [e]) \<longleftrightarrow> Q evs \<and> C"
    unfolding Q_def C_def by auto
  ultimately have "c \<in> set (clients (run (evs @ [e]) s)) \<longleftrightarrow> P (evs @ [e]) \<or> Q (evs @ [e])"
    using ih by blast
  then show ?case by (simp only: P_def Q_def)
qed

lemma step_sent_absent:
  "c \<notin> set (clients s) \<Longrightarrow> \<forall>t. e \<noteq> Connection c t \<Longrightarrow>
     sent (sockets (step e s) c) = sent (sockets s c)"
  by (cases e)
     (auto simp add: on_message_def on_connection_def on_close_def on_error_def
        set_ready_def Let_def forEach_send_sent split: sum.splits)

lemma run_sent_absent:
  "c \<notin> set (clients s) \<Longrightarrow> \<forall>t. Connection c t \<notin> set evs \<Longrightarrow>
     sent (sockets (run evs s) c) = sent (sockets s c)"
proof (induction evs arbitrary: s)
  case Nil
  show ?case by simp
next
  case (Cons e evs)
  from Cons.prems have ne: "\<forall>t. e \<noteq> Connection c t" by auto
  with Cons.prems(1) have "c \<notin> set (clients (step e s))"
    by (simp add: step_member)
  moreover from Cons.prems have "\<forall>t. Connection c t \<notin> set evs" by auto
  ultimately have "sent (sockets (run evs (step e s)) c) = sent (sockets (step e s) c)"
    by (rule Cons.IH)
  with Cons.prems(1) ne show ?case
    by (simp add: step_sent_absent)
qed

lemma on_message_malformed:
  "on_message now c NotJSON s =
     s\<lparr>server_log := server_log s @ [Log ''Received message'', Err ''Error processing message'']\<rparr>"
  by (simp add: on_message_def JSON_parse_def)

lemma on_message_null:
  "on_message now c (Json JNull) s =
     s\<lparr>server_log := server_log s @ [Log ''Received message'', Err ''Error processing message'']\<rparr>"
  by (simp add: on_message_def JSON_parse_def)

lemma core_step: "core s = core s' \<Longrightarrow> core (step e s) = core (step e s')"
  by (cases e)
     (auto simp add: core_def on_message_def on_connection_def on_close_def on_error_def
        set_ready_def Let_def split: sum.splits)

lemma core_run: "core s = core s' \<Longrightarrow> core (run es s) = core (run es s')"
proof (induction es arbitrary: s s')
  case Nil
  then show ?case by simp
next
  case (Cons e es)
  from Cons.prems have "core (step e s) = core (step e s')" by (rule core_step)
  then have "core (run es (step e s)) = core (run es (step e s'))" by (rule Cons.IH)
  then show ?case by simp
qed

lemma core_drop_event:
  assumes "\<And>s. core (step e s) = core s"
  shows "core (run (pre @ e # post) s) = core (run (pre @ post) s)"
proof -
  have "core (step e (run pre s)) = core (run pre s)"
    by (rule assms)
  then have "core (run post (step e (run pre s))) = core (run post (run pre s))"
    by (rule core_run)
  then show ?thesis
    by (simp add: run_append)
qed

lemma clients_on_close: "clients (on_close c s) = removeAll c (clients s)"
  by (simp add: on_close_def set_delete_def)

lemma clients_on_error: "clients (on_error c s) = removeAll c (clients s)"
  by (simp add: on_error_def set_delete_def)

lemma sent_after_removal:
  assumes "e = Close c \<or> e = Error c" and "\<forall>t. Connection c t \<notin> set evs"
  shows "sent (sockets (run evs (step e s)) c) = sent (sockets s c)"
proof -
  from assms(1) have "c \<notin> set (clients (step e s))"
    by (auto simp add: step_member)
  then have "sent (sockets (run evs (step e s)) c) = sent (sockets (step e s) c)"
    using assms(2) by (rule run_sent_absent)
  also from assms(1) have "sent (sockets (step e s) c) = sent (sockets s c)"
    by (auto simp add: on_close_def on_error_def set_ready_def)
  finally show ?thesis .
qed

lemma core_close_twice: "core (step (Close c) (step (Close c) r)) = core (step (Close c) r)"
  by (simp add: core_def on_close_def set_ready_def set_delete_def)

subsection \<open>What a payload changes for later ones\<close>

lemma on_message_readyState:
  "readyState (sockets (on_message now c data s) k) = readyState (sockets s k)"
  by (simp add: on_message_def Let_def forEach_send_readyState split: sum.splits)

lemma on_message_parsed:
  assumes "set_timestamp now v = Inr m"
  shows "on_message now c (Json v) s =
     s\<lparr>server_log := server_log s @ [Log ''Received message''],
       sockets := forEach_send m (clients s) (sockets s)\<rparr>"
  using assms by (simp add: on_message_def JSON_parse_def)

lemma sent_on_message_parsed:
  assumes "set_timestamp now v = Inr m" and "distinct (clients s)"
  shows "sent (sockets (on_message now c (Json v) s) k) =
     sent (sockets s k) @
       (if k \<in> set (clients s) \<and> readyState (sockets s k) = OPEN then [m] else [])"
  using assms(2)
  by (simp add: on_message_parsed [OF assms(1)] forEach_send_sent count_list_distinct)

lemma step_routing:
  assumes "clients s = clients s'"
    and "\<forall>k. readyState (sockets s k) = readyState (sockets s' k)"
  shows "clients (step e s) = clients (step e s') \<and>
         (\<forall>k. readyState (sockets (step e s) k) = readyState (sockets (step e s') k)) \<and>
         (\<forall>k. delivered s (step e s) k = delivered s' (step e s') k)"
proof (cases e)
  case (Message c now data)
  show ?thesis
    using assms unfolding Message
    by (simp add: on_message_clients on_message_readyState)
       (simp add: delivered_def on_message_def Let_def forEach_send_sent split: sum.splits)
qed (use assms in \<open>auto simp add: delivered_def on_connection_def on_close_def on_error_def
        set_ready_def set_add_def set_delete_def ws_send_def\<close>)

lemma step_sent_extends: "\<exists>xs. sent (sockets (step e s) k) = sent (sockets s k) @ xs"
  by (cases e)
     (auto simp add: on_message_def Let_def forEach_send_sent on_connection_def on_close_def
        on_error_def set_ready_def ws_send_def split: sum.splits)

lemma run_sent_extends: "\<exists>xs. sent (sockets (run es s) k) = sent (sockets s k) @ xs"
proof (induction es arbitrary: s)
  case Nil
  show ?case by simp
next
  case (Cons e es)
  obtain xs where "sent (sockets (step e s) k) = sent (sockets s k) @ xs"
    using step_sent_extends by blast
  moreover obtain ys where "sent (sockets (run es (step e s)) k) = sent (sockets (step e s) k) @ ys"
    using Cons.IH by blast
  ultimately show ?case by simp
qed

lemma delivered_run_Cons:
  "delivered s (run (e # es) s) k =
     delivered s (step e s) k @ delivered (step e s) (run es (step e s)) k"
proof -
  obtain xs where xs: "sent (sockets (step e s) k) = sent (sockets s k) @ xs"
    using step_sent_extends by blast
  obtain ys where ys: "sent (sockets (run es (step e s)) k) = sent (sockets (step e s) k) @ ys"
    using run_sent_extends by blast
  show ?thesis
    by (simp add: delivered_def xs ys)
qed

lemma run_routing:
  assumes "clients s = clients s'"
    and "\<forall>k. readyState (sockets s k) = readyState (sockets s' k)"
  shows "clients (run es s) = clients (run es s') \<and>
         (\<forall>k. readyState (sockets (run es s) k) = readyState (sockets (run es s') k)) \<and>
         (\<forall>k. delivered s (run es s) k = delivered s' (run es s') k)"
  using assms
proof (induction es arbitrary: s s')
  case Nil
  then show ?case by (simp add: delivered_def)
next
  case (Cons e es)
  from step_routing [OF Cons.prems, of e]
  have st: "clients (step e s) = clients (step e s')"
    "\<forall>k. readyState (sockets (step e s) k) = readyState (sockets (step e s') k)"
    "\<forall>k. delivered s (step e s) k = delivered s' (step e s') k"
    by blast+
  from Cons.IH [OF st(1) st(2)] st(3) show ?case
    by (simp add: delivered_run_Cons del: run.simps) simp
qed

lemma later_delivery_unaffected:
  "clients (run post (step (Message c now data) s)) = clients (run post s) \<and>
   (\<forall>k. readyState (sockets (run post (step (Message c now data) s)) k) =
         readyState (sockets (run post s) k)) \<and>
   (\<forall>k. delivered (step (Message c now data) s) (run post (step (Message c now data) s)) k =
         delivered s (run post s) k)"
  by (rule run_routing) (simp_all add: on_message_clients on_message_readyState)

section \<open>Properties of the session\<close>

lemmas session_eval = session_start_def joinChat_def connect_effect_def effect_cleanup_def
  onopen_def onmessage_def onclose_def onerror_def sendMessage_def logout_def say_def
  socket_open_def trim_def is_space_def read_prop_def own_props_def JSON_parse_def
  ws_send_def ws_close_def Let_def

lemma onmessage_malformed:
  "onmessage NotJSON s =
     s\<lparr>client_log := client_log s @
        [Log ''Received message from server'', Err ''Error parsing message'']\<rparr>"
  by (simp add: onmessage_def JSON_parse_def say_def)

lemma onmessage_null:
  "onmessage (Json JNull) s =
     s\<lparr>client_log := client_log s @
        [Log ''Received message from server'', Log ''Parsed message data'',
         Err ''Error parsing message'']\<rparr>"
  by (simp add: onmessage_def JSON_parse_def say_def)

lemma trim_Nil: "trim [] = []"
  by (simp add: trim_def)

lemma read_prop_object:
  "read_prop (JObj fs) k = (case map_of fs k of None \<Rightarrow> JUndefined | Some v \<Rightarrow> v)"
  by (simp add: read_prop_def split: option.splits)

lemma onmessage_user:
  assumes "get_prop v ''type'' = Inr ty" and "ty \<noteq> JStr ''system''" and "ty \<noteq> JStr ''register''"
    and "truthy (read_prop v ''user'')" and "truthy (read_prop v ''message'')"
  shows "onmessage (Json v) s =
     s\<lparr>client_log := client_log s @
          [Log ''Received message from server'', Log ''Parsed message data'', Log ''Updated messages''],
       messages := messages s @
          [JObj (AList.update ''isMine'' (JBool (read_prop v ''user'' = JStr (username s)))
                   (own_props v))]\<rparr>"
  using assms by (simp add: onmessage_def JSON_parse_def say_def)

lemma onmessage_unknown:
  assumes "get_prop v ''type'' = Inr ty" and "ty \<noteq> JStr ''system''" and "ty \<noteq> JStr ''register''"
    and "\<not> (truthy (read_prop v ''user'') \<and> truthy (read_prop v ''message''))"
  shows "onmessage (Json v) s =
     s\<lparr>client_log := client_log s @
          [Log ''Received message from server'', Log ''Parsed message data'',
           Warn ''Unknown message format'']\<rparr>"
  using assms by (auto simp add: onmessage_def JSON_parse_def say_def)

lemma ws_close_idem: "ws_close (ws_close sock) = ws_close sock"
  by (simp add: ws_close_def)

lemma ws_close_readyState:
  "readyState (ws_close sock) = CLOSING \<or> readyState (ws_close sock) = CLOSED"
  by (simp add: ws_close_def)

lemma logout_idem: "logout (logout s) = logout s"
  by (cases "ws_current s") (simp_all add: logout_def ws_close_idem)

lemma status_inv_step:
  assumes "ws_current s = None \<longrightarrow> connectionStatus s = Disconnected"
  shows "ws_current (client_step e s) = None \<longrightarrow> connectionStatus (client_step e s) = Disconnected"
  using assms
  by (cases e)
     (auto simp add: joinChat_def connect_effect_def effect_cleanup_def onopen_def onmessage_def
        onclose_def onerror_def sendMessage_def logout_def say_def socket_open_def Let_def
        split: option.splits sum.splits)

lemma status_inv_run:
  assumes "ws_current s = None \<longrightarrow> connectionStatus s = Disconnected"
  shows "ws_current (client_run evs s) = None \<longrightarrow> connectionStatus (client_run evs s) = Disconnected"
  using assms
proof (induction evs arbitrary: s)
  case Nil
  then show ?case by simp
next
  case (Cons e evs)
  from Cons.prems have "ws_current (client_step e s) = None \<longrightarrow>
      connectionStatus (client_step e s) = Disconnected"
    by (rule status_inv_step)
  then have "ws_current (client_run evs (client_step e s)) = None \<longrightarrow>
      connectionStatus (client_run evs (client_step e s)) = Disconnected"
    by (rule Cons.IH)
  then show ?case by simp
qed

lemma session_core_step:
  assumes "session_core s = session_core s'"
  shows "session_core (client_step e s) = session_core (client_step e s')"
  using assms
  by (cases e)
     (auto simp add: session_core_def joinChat_def connect_effect_def effect_cleanup_def
        onopen_def onmessage_def onclose_def onerror_def sendMessage_def logout_def say_def
        socket_open_def Let_def split: option.splits sum.splits)

lemma session_core_run:
  assumes "session_core s = session_core s'"
  shows "session_core (client_run es s) = session_core (client_run es s')"
  using assms
proof (induction es arbitrary: s s')
  case Nil
  then show ?case by simp
next
  case (Cons e es)
  from Cons.prems have "session_core (client_step e s) = session_core (client_step e s')"
    by (rule session_core_step)
  then have "session_core (client_run es (client_step e s)) =
      session_core (client_run es (client_step e s'))"
    by (rule Cons.IH)
  then show ?case by simp
qed

lemma client_run_append: "client_run (xs @ ys) s = client_run ys (client_run xs s)"
  by (induction xs arbitrary: s) simp_all

lemma session_drop_event:
  assumes "\<And>s. session_core (client_step e s) = session_core s"
  shows "session_core (client_run (pre @ e # post) s) = session_core (client_run (pre @ post) s)"
proof -
  have "session_core (client_step e (client_run pre s)) = session_core (client_run pre s)"
    by (rule assms)
  then have "session_core (client_run post (client_step e (client_run pre s))) =
      session_core (client_run post (client_run pre s))"
    by (rule session_core_run)
  then show ?thesis
    by (simp add: client_run_append)
qed

lemma ws_send_changes: "ws_send m sock \<noteq> sock"
proof
  assume "ws_send m sock = sock"
  then have "sent (ws_send m sock) = sent sock" by simp
  then show False by (simp add: ws_send_def)
qed

lemma sendMessage_unchanged_iff:
  "ws_current (sendMessage now s) = ws_current s \<longleftrightarrow>
     trim (inputMessage s) = [] \<or> \<not> socket_open s"
  by (cases "ws_current s")
     (auto simp add: sendMessage_def socket_open_def say_def Let_def ws_send_changes)

section \<open>The claims\<close>

subsection \<open>C1: kinds other than \<open>message\<close> at the relay\<close>

text \<open>
  Claim C1 says that a payload which parses as a Message of kind \<open>register\<close>, or of any
  kind other than \<open>message\<close>, is accepted by the relay and sent to nobody. The message
  handler never looks at \<open>type\<close>. With one open connection in the registry, a
  \<open>register\<close> Message comes back to it, stamped.
\<close>

theorem relay_register_rebroadcast_counterexample:
  "delivered (run [Connection 0 ''t0''] server_start)
     (on_message ''t1'' 0
        (Json (JObj [(''type'', JStr ''register''), (''username'', JStr ''Alice'')]))
        (run [Connection 0 ''t0''] server_start)) 0 \<noteq> [] \<and>
   delivered (run [Connection 0 ''t0''] server_start)
     (on_message ''t1'' 0
        (Json (JObj [(''type'', JStr ''register''), (''username'', JStr ''Alice'')]))
        (run [Connection 0 ''t0''] server_start)) 0 =
   [JObj [(''type'', JStr ''register''), (''username'', JStr ''Alice''),
          (''timestamp'', JStr ''t1'')]]"
  by (simp add: relay_eval)

text \<open>
  Claim C1, as the code has it: a payload that parses as a Message of kind \<open>register\<close>,
  or of any kind other than \<open>message\<close>, is treated like one of kind \<open>message\<close>. The
  registry is unchanged, and the Message, with its timestamp set to the relay's time, is
  sent once to every connection of the registry that is open, and to no other.
\<close>

theorem relay_rebroadcasts_every_kind:
  assumes "distinct (clients s)" and "map_of fs ''type'' \<noteq> Some (JStr ''message'')"
  shows "clients (on_message now c (Json (JObj fs)) s) = clients s \<and>
         (\<forall>k. sent (sockets (on_message now c (Json (JObj fs)) s) k) =
                sent (sockets s k) @
                (if k \<in> set (clients s) \<and> readyState (sockets s k) = OPEN
                 then [JObj (AList.update ''timestamp'' (JStr now) fs)] else []))"
  using assms(1) by (simp add: on_message_clients sent_on_message broadcast_exact)

text \<open>
  C1 at a registry of connection 0, open, and connection 1, closing: the \<open>register\<close>
  Message reaches connection 0 after its welcome, and connection 1 gets nothing.
\<close>

theorem relay_rebroadcasts_every_kind_witness:
  "distinct (clients (run [Connection 0 ''t0'', Connection 1 ''t0'', Transport 1 CLOSING] server_start)) \<and>
   map_of [(''type'', JStr ''register''), (''username'', JStr ''Alice'')] ''type''
     \<noteq> Some (JStr ''message'') \<and>
   sent (sockets (on_message ''t1'' 0
        (Json (JObj [(''type'', JStr ''register''), (''username'', JStr ''Alice'')]))
        (run [Connection 0 ''t0'', Connection 1 ''t0'', Transport 1 CLOSING] server_start)) 0) =
     [welcome_message ''t0'',
      JObj [(''type'', JStr ''register''), (''username'', JStr ''Alice''),
            (''timestamp'', JStr ''t1'')]] \<and>
   sent (sockets (on_message ''t1'' 0
        (Json (JObj [(''type'', JStr ''register''), (''username'', JStr ''Alice'')]))
        (run [Connection 0 ''t0'', Connection 1 ''t0'', Transport 1 CLOSING] server_start)) 1) =
     [welcome_message ''t0'']"
  using relay_rebroadcasts_every_kind
    [of "run [Connection 0 ''t0'', Connection 1 ''t0'', Transport 1 CLOSING] server_start"
        "[(''type'', JStr ''register''), (''username'', JStr ''Alice'')]" "''t1''" 0]
  by (simp add: relay_eval)

subsection \<open>C2: broadcast of kind \<open>message\<close>\<close>

text \<open>
  Claim C2: for every payload that parses as a Message of kind \<open>message\<close>, the relay
  stamps the timestamp and sends the stamped Message to exactly the connections that are in
  the registry and open, once each, the originating connection included when it is one of
  them. The registry itself is unchanged and nothing is sent to any other connection.
\<close>

theorem relay_broadcasts_message:
  assumes "distinct (clients s)" and "map_of fs ''type'' = Some (JStr ''message'')"
  shows "clients (on_message now c (Json (JObj fs)) s) = clients s \<and>
         (\<forall>k. sent (sockets (on_message now c (Json (JObj fs)) s) k) =
                sent (sockets s k) @
                (if k \<in> set (clients s) \<and> readyState (sockets s k) = OPEN
                 then [JObj (AList.update ''timestamp'' (JStr now) fs)] else [])) \<and>
         get_prop (JObj (AList.update ''timestamp'' (JStr now) fs)) ''timestamp'' = Inr (JStr now) \<and>
         (c \<in> set (clients s) \<and> readyState (sockets s c) = OPEN \<longrightarrow>
            delivered s (on_message now c (Json (JObj fs)) s) c =
              [JObj (AList.update ''timestamp'' (JStr now) fs)])"
  using assms(1)
  by (simp add: on_message_clients sent_on_message broadcast_exact update_conv')

text \<open>
  C2 with connections 0 (the sender, open), 1 (closing) and 2 (closed and removed): the
  sender gets its own Message back, carrying the relay's time.
\<close>

theorem relay_broadcasts_message_witness:
  "distinct (clients (run [Connection 0 ''t0'', Connection 1 ''t0'', Connection 2 ''t0'',
                          Transport 1 CLOSING, Close 2] server_start)) \<and>
   map_of [(''type'', JStr ''message''), (''user'', JStr ''Alice''), (''message'', JStr ''hi''),
           (''timestamp'', JStr ''client time'')] ''type'' = Some (JStr ''message'') \<and>
   0 \<in> set (clients (run [Connection 0 ''t0'', Connection 1 ''t0'', Connection 2 ''t0'',
                          Transport 1 CLOSING, Close 2] server_start)) \<and>
   readyState (sockets (run [Connection 0 ''t0'', Connection 1 ''t0'', Connection 2 ''t0'',
                          Transport 1 CLOSING, Close 2] server_start) 0) = OPEN \<and>
   delivered
     (run [Connection 0 ''t0'', Connection 1 ''t0'', Connection 2 ''t0'',
           Transport 1 CLOSING, Close 2] server_start)
     (on_message ''t1'' 0
        (Json (JObj [(''type'', JStr ''message''), (''user'', JStr ''Alice''),
                     (''message'', JStr ''hi''), (''timestamp'', JStr ''client time'')]))
        (run [Connection 0 ''t0'', Connection 1 ''t0'', Connection 2 ''t0'',
              Transport 1 CLOSING, Close 2] server_start)) 0 =
     [JObj [(''type'', JStr ''message''), (''user'', JStr ''Alice''), (''message'', JStr ''hi''),
            (''timestamp'', JStr ''t1'')]]"
  using relay_broadcasts_message
    [of "run [Connection 0 ''t0'', Connection 1 ''t0'', Connection 2 ''t0'',
              Transport 1 CLOSING, Close 2] server_start"
        "[(''type'', JStr ''message''), (''user'', JStr ''Alice''), (''message'', JStr ''hi''),
          (''timestamp'', JStr ''client time'')]" "''t1''" 0]
  by (simp add: relay_eval)

subsection \<open>C3: the relay's timestamp\<close>

text \<open>
  Claim C3: every Message the relay broadcasts carries the relay's receipt time. Each
  frame that the handler sends for an inbound Message has \<open>timestamp\<close> equal to the
  relay's \<open>now\<close>; the frames sent are all that is added to a connection's output; and the
  timestamp the client supplied, whatever it is and also when there is none, has no
  influence on the outcome.
\<close>

theorem relay_timestamp_authority:
  "(\<forall>m \<in> set (delivered s (on_message now c (Json (JObj fs)) s) k).
       get_prop m ''timestamp'' = Inr (JStr now)) \<and>
   sent (sockets (on_message now c (Json (JObj fs)) s) k) =
     sent (sockets s k) @ delivered s (on_message now c (Json (JObj fs)) s) k \<and>
   on_message now c (Json (JObj (AList.update ''timestamp'' v fs))) s =
     on_message now c (Json (JObj fs)) s"
proof (intro conjI)
  show "\<forall>m \<in> set (delivered s (on_message now c (Json (JObj fs)) s) k).
       get_prop m ''timestamp'' = Inr (JStr now)"
    by (simp add: delivered_on_message update_conv')
  show "sent (sockets (on_message now c (Json (JObj fs)) s) k) =
     sent (sockets s k) @ delivered s (on_message now c (Json (JObj fs)) s) k"
    by (rule sent_on_message)
  show "on_message now c (Json (JObj (AList.update ''timestamp'' v fs))) s =
     on_message now c (Json (JObj fs)) s"
    by (simp add: on_message_object)
qed

text \<open>C3 for a Message that arrives with a timestamp of the year 1999.\<close>

theorem relay_timestamp_authority_witness:
  "JObj [(''user'', JStr ''Alice''), (''message'', JStr ''hi''), (''timestamp'', JStr ''t1'')]
     \<in> set (delivered (run [Connection 0 ''t0''] server_start)
         (on_message ''t1'' 0
            (Json (JObj [(''user'', JStr ''Alice''), (''message'', JStr ''hi''),
                         (''timestamp'', JStr ''1999-01-01T00:00:00.000Z'')]))
            (run [Connection 0 ''t0''] server_start)) 0) \<and>
   get_prop (JObj [(''user'', JStr ''Alice''), (''message'', JStr ''hi''),
                   (''timestamp'', JStr ''t1'')]) ''timestamp'' = Inr (JStr ''t1'')"
proof -
  have mem: "JObj [(''user'', JStr ''Alice''), (''message'', JStr ''hi''), (''timestamp'', JStr ''t1'')]
     \<in> set (delivered (run [Connection 0 ''t0''] server_start)
         (on_message ''t1'' 0
            (Json (JObj [(''user'', JStr ''Alice''), (''message'', JStr ''hi''),
                         (''timestamp'', JStr ''1999-01-01T00:00:00.000Z'')]))
            (run [Connection 0 ''t0''] server_start)) 0)"
    by (simp add: relay_eval)
  from relay_timestamp_authority
    [of "run [Connection 0 ''t0''] server_start" "''t1''" 0
        "[(''user'', JStr ''Alice''), (''message'', JStr ''hi''),
          (''timestamp'', JStr ''1999-01-01T00:00:00.000Z'')]" 0]
  have "\<forall>m \<in> set (delivered (run [Connection 0 ''t0''] server_start)
         (on_message ''t1'' 0
            (Json (JObj [(''user'', JStr ''Alice''), (''message'', JStr ''hi''),
                         (''timestamp'', JStr ''1999-01-01T00:00:00.000Z'')]))
            (run [Connection 0 ''t0''] server_start)) 0).
       get_prop m ''timestamp'' = Inr (JStr ''t1'')"
    by (rule conjunct1)
  with mem show ?thesis by blast
qed

subsection \<open>C4: self or other\<close>

text \<open>
  Claim C4 says that every inbound Message of kind \<open>message\<close> is appended to the
  sequence, tagged with \<open>isSelf\<close>. The handler appends only when \<open>user\<close> and
  \<open>message\<close> are both truthy: a Message of kind \<open>message\<close> from Alice with an empty
  body, received by Alice's session, is not appended at all.
\<close>

theorem session_empty_body_counterexample:
  "username (client_run [TypeName ''Alice'', JoinChat, RunEffect, SocketState OPEN, Opened]
         (session_start (\<lambda>k. None))) = ''Alice'' \<and>
   messages (onmessage
      (Json (JObj [(''type'', JStr ''message''), (''user'', JStr ''Alice''),
                   (''message'', JStr ''''), (''timestamp'', JStr ''t1'')]))
      (client_run [TypeName ''Alice'', JoinChat, RunEffect, SocketState OPEN, Opened]
         (session_start (\<lambda>k. None)))) =
   messages (client_run [TypeName ''Alice'', JoinChat, RunEffect, SocketState OPEN, Opened]
         (session_start (\<lambda>k. None))) \<and>
   messages (onmessage
      (Json (JObj [(''type'', JStr ''message''), (''user'', JStr ''Alice''),
                   (''message'', JStr ''''), (''timestamp'', JStr ''t1'')]))
      (client_run [TypeName ''Alice'', JoinChat, RunEffect, SocketState OPEN, Opened]
         (session_start (\<lambda>k. None)))) = []"
  by (simp add: session_eval)

text \<open>
  Claim C4, as the code has it: for every inbound Message of kind \<open>message\<close> (its
  \<open>type\<close> is \<open>message\<close> or absent) whose user and body are both non-empty strings, the
  session appends the Message to its sequence with \<open>isMine\<close> set to the result of
  comparing the \<open>user\<close> string with the session's \<open>username\<close>: true when they are
  equal, false for any other user.
\<close>

theorem session_classifies_self:
  assumes "map_of fs ''type'' = None \<or> map_of fs ''type'' = Some (JStr ''message'')"
    and "map_of fs ''user'' = Some (JStr u)" and "u \<noteq> []"
    and "map_of fs ''message'' = Some (JStr t)" and "t \<noteq> []"
  shows "messages (onmessage (Json (JObj fs)) s) =
           messages s @ [JObj (AList.update ''isMine'' (JBool (u = username s)) fs)] \<and>
         get_prop (JObj (AList.update ''isMine'' (JBool (u = username s)) fs)) ''isMine'' =
           Inr (JBool (u = username s))"
proof -
  from assms(1) obtain ty where ty: "get_prop (JObj fs) ''type'' = Inr ty"
    "ty \<noteq> JStr ''system''" "ty \<noteq> JStr ''register''"
    by auto
  from assms(2-5) have tr: "truthy (read_prop (JObj fs) ''user'')"
    "truthy (read_prop (JObj fs) ''message'')"
    by (simp_all add: read_prop_object)
  from assms(2) have "read_prop (JObj fs) ''user'' = JStr u"
    by (simp add: read_prop_object)
  then show ?thesis
    by (simp add: onmessage_user [OF ty tr] own_props_def update_conv')
qed

text \<open>
  C4 for Alice's Message \<open>hi\<close>: it is Alice's own in her session, and another user's
  in Bob's.
\<close>

theorem session_classifies_self_witness:
  "messages (onmessage
      (Json (JObj [(''type'', JStr ''message''), (''user'', JStr ''Alice''),
                   (''message'', JStr ''hi''), (''timestamp'', JStr ''t1'')]))
      (client_run [TypeName ''Alice'', JoinChat, RunEffect, SocketState OPEN, Opened]
         (session_start (\<lambda>k. None)))) =
     [JObj [(''type'', JStr ''message''), (''user'', JStr ''Alice''),
            (''message'', JStr ''hi''), (''timestamp'', JStr ''t1''), (''isMine'', JBool True)]] \<and>
   messages (onmessage
      (Json (JObj [(''type'', JStr ''message''), (''user'', JStr ''Alice''),
                   (''message'', JStr ''hi''), (''timestamp'', JStr ''t1'')]))
      (client_run [TypeName ''Bob'', JoinChat, RunEffect, SocketState OPEN, Opened]
         (session_start (\<lambda>k. None)))) =
     [JObj [(''type'', JStr ''message''), (''user'', JStr ''Alice''),
            (''message'', JStr ''hi''), (''timestamp'', JStr ''t1''), (''isMine'', JBool False)]]"
  using session_classifies_self
    [of "[(''type'', JStr ''message''), (''user'', JStr ''Alice''),
          (''message'', JStr ''hi''), (''timestamp'', JStr ''t1'')]" "''Alice''" "''hi''"
        "client_run [TypeName ''Alice'', JoinChat, RunEffect, SocketState OPEN, Opened]
           (session_start (\<lambda>k. None))"]
    session_classifies_self
    [of "[(''type'', JStr ''message''), (''user'', JStr ''Alice''),
          (''message'', JStr ''hi''), (''timestamp'', JStr ''t1'')]" "''Alice''" "''hi''"
        "client_run [TypeName ''Bob'', JoinChat, RunEffect, SocketState OPEN, Opened]
           (session_start (\<lambda>k. None))"]
  by (simp add: session_eval)

subsection \<open>C5: payloads that do not parse\<close>

text \<open>
  Claim C5 says that every payload which fails to parse as a Message is dropped by the
  relay. The relay checks no more than the JSON syntax: a JSON object that lacks the user
  and the body of a Message of kind \<open>message\<close>, sent by connection 0, is stamped and
  reaches connection 1, and the JSON text \<open>5\<close> reaches it as it is.
\<close>

theorem relay_keeps_incomplete_message_counterexample:
  "delivered (run [Connection 0 ''t0'', Connection 1 ''t0''] server_start)
     (on_message ''t1'' 0 (Json (JObj [(''type'', JStr ''message'')]))
        (run [Connection 0 ''t0'', Connection 1 ''t0''] server_start)) 1 \<noteq> [] \<and>
   delivered (run [Connection 0 ''t0'', Connection 1 ''t0''] server_start)
     (on_message ''t1'' 0 (Json (JObj [(''type'', JStr ''message'')]))
        (run [Connection 0 ''t0'', Connection 1 ''t0''] server_start)) 1 =
     [JObj [(''type'', JStr ''message''), (''timestamp'', JStr ''t1'')]] \<and>
   delivered (run [Connection 0 ''t0'', Connection 1 ''t0''] server_start)
     (on_message ''t1'' 0 (Json (JNum 5))
        (run [Connection 0 ''t0'', Connection 1 ''t0''] server_start)) 1 = [JNum 5]"
  by (simp add: relay_eval)

text \<open>
  Claim C5, as the code has it. A payload that is not JSON, or is the JSON text
  \<open>null\<close>, is dropped by relay and session with only a local report: the state of
  either changes in its console only. Every other payload is dropped with only a local
  report by the session when it is not a Message the session accepts (it is neither
  \<open>system\<close> nor \<open>register\<close> and lacks a user or a body), while the relay relays it,
  stamped when it is an object, to every open connection of the registry. Whatever the
  payload is, the relay does not fail, does not change the state of the sender's or any
  other connection, and removes no connection from the registry; and every later message,
  from the same or any other connection, is delivered exactly as if the payload had never
  arrived. The same holds for the session: after a payload it dropped, its state, the
  console apart, is what it would have been without that payload.
\<close>

theorem malformed_payload_contained:
  "on_message now c NotJSON s =
     s\<lparr>server_log := server_log s @ [Log ''Received message'', Err ''Error processing message'']\<rparr> \<and>
   on_message now c (Json JNull) s =
     s\<lparr>server_log := server_log s @ [Log ''Received message'', Err ''Error processing message'']\<rparr> \<and>
   core (run (pre @ Message c now NotJSON # post) s) = core (run (pre @ post) s) \<and>
   core (run (pre @ Message c now (Json JNull) # post) s) = core (run (pre @ post) s) \<and>
   (distinct (clients s) \<and> set_timestamp now v = Inr m \<longrightarrow>
      (\<forall>k. sent (sockets (on_message now c (Json v) s) k) =
            sent (sockets s k) @
            (if k \<in> set (clients s) \<and> readyState (sockets s k) = OPEN then [m] else []))) \<and>
   clients (on_message now c data s) = clients s \<and>
   (\<forall>k. readyState (sockets (on_message now c data s) k) = readyState (sockets s k)) \<and>
   clients (run post (step (Message c now data) s)) = clients (run post s) \<and>
   (\<forall>k. readyState (sockets (run post (step (Message c now data) s)) k) =
         readyState (sockets (run post s) k)) \<and>
   (\<forall>k. delivered (step (Message c now data) s) (run post (step (Message c now data) s)) k =
         delivered s (run post s) k) \<and>
   onmessage NotJSON cs =
     cs\<lparr>client_log := client_log cs @
        [Log ''Received message from server'', Err ''Error parsing message'']\<rparr> \<and>
   onmessage (Json JNull) cs =
     cs\<lparr>client_log := client_log cs @
        [Log ''Received message from server'', Log ''Parsed message data'',
         Err ''Error parsing message'']\<rparr> \<and>
   (get_prop v ''type'' = Inr ty \<and> ty \<noteq> JStr ''system'' \<and> ty \<noteq> JStr ''register'' \<and>
    \<not> (truthy (read_prop v ''user'') \<and> truthy (read_prop v ''message'')) \<longrightarrow>
      onmessage (Json v) cs =
        cs\<lparr>client_log := client_log cs @
           [Log ''Received message from server'', Log ''Parsed message data'',
            Warn ''Unknown message format'']\<rparr> \<and>
      session_core (client_run (cpre @ Received (Json v) # cpost) cs) =
        session_core (client_run (cpre @ cpost) cs)) \<and>
   session_core (client_run (cpre @ Received NotJSON # cpost) cs) =
     session_core (client_run (cpre @ cpost) cs) \<and>
   session_core (client_run (cpre @ Received (Json JNull) # cpost) cs) =
     session_core (client_run (cpre @ cpost) cs)"
proof (intro conjI)
  show "core (run (pre @ Message c now NotJSON # post) s) = core (run (pre @ post) s)"
    by (rule core_drop_event) (simp add: on_message_malformed core_def)
  show "core (run (pre @ Message c now (Json JNull) # post) s) = core (run (pre @ post) s)"
    by (rule core_drop_event) (simp add: on_message_null core_def)
  show "distinct (clients s) \<and> set_timestamp now v = Inr m \<longrightarrow>
      (\<forall>k. sent (sockets (on_message now c (Json v) s) k) =
            sent (sockets s k) @
            (if k \<in> set (clients s) \<and> readyState (sockets s k) = OPEN then [m] else []))"
    using sent_on_message_parsed by blast
  show "clients (on_message now c data s) = clients s"
    by (rule on_message_clients)
  show "\<forall>k. readyState (sockets (on_message now c data s) k) = readyState (sockets s k)"
    by (simp add: on_message_readyState)
  show "clients (run post (step (Message c now data) s)) = clients (run post s)"
    using later_delivery_unaffected by blast
  show "\<forall>k. readyState (sockets (run post (step (Message c now data) s)) k) =
         readyState (sockets (run post s) k)"
    using later_delivery_unaffected by blast
  show "\<forall>k. delivered (step (Message c now data) s) (run post (step (Message c now data) s)) k =
         delivered s (run post s) k"
    using later_delivery_unaffected by blast
  show "onmessage NotJSON cs =
     cs\<lparr>client_log := client_log cs @
        [Log ''Received message from server'', Err ''Error parsing message'']\<rparr>"
    by (rule onmessage_malformed)
  show "onmessage (Json JNull) cs =
     cs\<lparr>client_log := client_log cs @
        [Log ''Received message from server'', Log ''Parsed message data'',
         Err ''Error parsing message'']\<rparr>"
    by (rule onmessage_null)
  show "get_prop v ''type'' = Inr ty \<and> ty \<noteq> JStr ''system'' \<and> ty \<noteq> JStr ''register'' \<and>
    \<not> (truthy (read_prop v ''user'') \<and> truthy (read_prop v ''message'')) \<longrightarrow>
      onmessage (Json v) cs =
        cs\<lparr>client_log := client_log cs @
           [Log ''Received message from server'', Log ''Parsed message data'',
            Warn ''Unknown message format'']\<rparr> \<and>
      session_core (client_run (cpre @ Received (Json v) # cpost) cs) =
        session_core (client_run (cpre @ cpost) cs)"
  proof (intro impI conjI)
    assume h: "get_prop v ''type'' = Inr ty \<and> ty \<noteq> JStr ''system'' \<and> ty \<noteq> JStr ''register'' \<and>
      \<not> (truthy (read_prop v ''user'') \<and> truthy (read_prop v ''message''))"
    then have unk: "onmessage (Json v) x =
        x\<lparr>client_log := client_log x @
           [Log ''Received message from server'', Log ''Parsed message data'',
            Warn ''Unknown message format'']\<rparr>" for x
      using onmessage_unknown by blast
    show "onmessage (Json v) cs =
        cs\<lparr>client_log := client_log cs @
           [Log ''Received message from server'', Log ''Parsed message data'',
            Warn ''Unknown message format'']\<rparr>"
      by (rule unk)
    show "session_core (client_run (cpre @ Received (Json v) # cpost) cs) =
        session_core (client_run (cpre @ cpost) cs)"
      by (rule session_drop_event) (simp add: unk session_core_def)
  qed
  show "session_core (client_run (cpre @ Received NotJSON # cpost) cs) =
     session_core (client_run (cpre @ cpost) cs)"
    by (rule session_drop_event) (simp add: onmessage_malformed session_core_def)
  show "session_core (client_run (cpre @ Received (Json JNull) # cpost) cs) =
     session_core (client_run (cpre @ cpost) cs)"
    by (rule session_drop_event) (simp add: onmessage_null session_core_def)
qed (rule on_message_malformed on_message_null)+

text \<open>
  C5 for a relay with two connections, where a text that is not JSON, or an object with
  nothing but its \<open>type\<close>, comes before a Message of connection 0; and for Alice's
  session, which receives that object before a Message of Bob.
\<close>

theorem malformed_payload_contained_witness:
  "core (run ([Connection 0 ''t0'', Connection 1 ''t0''] @ Message 0 ''t1'' NotJSON #
              [Message 0 ''t2'' (Json (JObj [(''user'', JStr ''Alice''), (''message'', JStr ''hi'')]))])
           server_start) =
   core (run ([Connection 0 ''t0'', Connection 1 ''t0''] @
              [Message 0 ''t2'' (Json (JObj [(''user'', JStr ''Alice''), (''message'', JStr ''hi'')]))])
           server_start) \<and>
   distinct (clients (run [Connection 0 ''t0'', Connection 1 ''t0''] server_start)) \<and>
   set_timestamp ''t1'' (JObj [(''type'', JStr ''message'')]) =
     Inr (JObj [(''type'', JStr ''message''), (''timestamp'', JStr ''t1'')]) \<and>
   sent (sockets (on_message ''t1'' 0 (Json (JObj [(''type'', JStr ''message'')]))
           (run [Connection 0 ''t0'', Connection 1 ''t0''] server_start)) 1) =
     [welcome_message ''t0'', JObj [(''type'', JStr ''message''), (''timestamp'', JStr ''t1'')]] \<and>
   delivered
     (step (Message 0 ''t1'' (Json (JObj [(''type'', JStr ''message'')])))
        (run [Connection 0 ''t0'', Connection 1 ''t0''] server_start))
     (run [Message 0 ''t2'' (Json (JObj [(''user'', JStr ''Alice''), (''message'', JStr ''hi'')]))]
        (step (Message 0 ''t1'' (Json (JObj [(''type'', JStr ''message'')])))
           (run [Connection 0 ''t0'', Connection 1 ''t0''] server_start))) 1 =
     [JObj [(''user'', JStr ''Alice''), (''message'', JStr ''hi''), (''timestamp'', JStr ''t2'')]] \<and>
   get_prop (JObj [(''type'', JStr ''message'')]) ''type'' = Inr (JStr ''message'') \<and>
   \<not> truthy (read_prop (JObj [(''type'', JStr ''message'')]) ''user'') \<and>
   messages (client_run
      ([TypeName ''Alice'', JoinChat, RunEffect, SocketState OPEN, Opened] @
       Received (Json (JObj [(''type'', JStr ''message'')])) #
       [Received (Json (JObj [(''user'', JStr ''Bob''), (''message'', JStr ''hi'')]))])
      (session_start (\<lambda>k. None))) =
     [JObj [(''user'', JStr ''Bob''), (''message'', JStr ''hi''), (''isMine'', JBool False)]]"
  using malformed_payload_contained
    [where now = "''t1''" and c = 0
       and s = "run [Connection 0 ''t0'', Connection 1 ''t0''] server_start"
       and pre = "[]"
       and post = "[Message 0 ''t2'' (Json (JObj [(''user'', JStr ''Alice''), (''message'', JStr ''hi'')]))]"
       and v = "JObj [(''type'', JStr ''message'')]"
       and m = "JObj [(''type'', JStr ''message''), (''timestamp'', JStr ''t1'')]"
       and data = "Json (JObj [(''type'', JStr ''message'')])"
       and ty = "JStr ''message''"
       and cs = "session_start (\<lambda>k. None)"
       and cpre = "[TypeName ''Alice'', JoinChat, RunEffect, SocketState OPEN, Opened]"
       and cpost = "[Received (Json (JObj [(''user'', JStr ''Bob''), (''message'', JStr ''hi'')]))]"]
  by (simp add: relay_eval session_eval session_core_def)

subsection \<open>C6: membership of the registry\<close>

text \<open>
  Claim C6: a connection is in the registry if and only if it has been accepted and has
  not closed or errored since. The close and error handlers remove the connection
  unconditionally; removing an absent connection leaves the registry as it is; and once a
  connection's close or error event has been handled, nothing is sent to it by any later
  event, unless the connection is accepted again.
\<close>

theorem registry_membership:
  "(c \<in> set (clients (run evs server_start)) \<longleftrightarrow>
      (\<exists>pre t post. evs = pre @ Connection c t # post \<and>
         Close c \<notin> set post \<and> Error c \<notin> set post)) \<and>
   set (clients (on_close c s)) = set (clients s) - {c} \<and>
   set (clients (on_error c s)) = set (clients s) - {c} \<and>
   (c \<notin> set (clients s) \<longrightarrow>
      clients (on_close c s) = clients s \<and> clients (on_error c s) = clients s) \<and>
   ((\<forall>t. Connection c t \<notin> set later) \<longrightarrow>
      sent (sockets (run later (step (Close c) s)) c) = sent (sockets s c) \<and>
      sent (sockets (run later (step (Error c) s)) c) = sent (sockets s c))"
proof (intro conjI)
  show "c \<in> set (clients (run evs server_start)) \<longleftrightarrow>
      (\<exists>pre t post. evs = pre @ Connection c t # post \<and>
         Close c \<notin> set post \<and> Error c \<notin> set post)"
  proof -
    have "c \<notin> set (clients server_start)"
      by (simp add: server_start_def)
    then show ?thesis
      by (simp only: registry_general [of c evs server_start] simp_thms)
  qed
  show "set (clients (on_close c s)) = set (clients s) - {c}"
    by (simp add: clients_on_close)
  show "set (clients (on_error c s)) = set (clients s) - {c}"
    by (simp add: clients_on_error)
  show "c \<notin> set (clients s) \<longrightarrow>
      clients (on_close c s) = clients s \<and> clients (on_error c s) = clients s"
    by (simp add: clients_on_close clients_on_error)
  show "(\<forall>t. Connection c t \<notin> set later) \<longrightarrow>
      sent (sockets (run later (step (Close c) s)) c) = sent (sockets s c) \<and>
      sent (sockets (run later (step (Error c) s)) c) = sent (sockets s c)"
    using sent_after_removal [of "Close c" c later s] sent_after_removal [of "Error c" c later s]
    by blast
qed

text \<open>
  C6 for a run in which connection 0 is accepted and closed, and connection 1 then sends a
  Message: connection 0 is out of the registry and has received its welcome only.
\<close>

theorem registry_membership_witness:
  "0 \<notin> set (clients (run [Connection 0 ''t0'', Connection 1 ''t0'', Close 0,
        Message 1 ''t1'' (Json (JObj [(''user'', JStr ''Bob''), (''message'', JStr ''hi'')]))]
        server_start)) \<and>
   1 \<in> set (clients (run [Connection 0 ''t0'', Connection 1 ''t0'', Close 0,
        Message 1 ''t1'' (Json (JObj [(''user'', JStr ''Bob''), (''message'', JStr ''hi'')]))]
        server_start)) \<and>
   5 \<notin> set (clients (run [Connection 0 ''t0'', Connection 1 ''t0''] server_start)) \<and>
   clients (on_close 5 (run [Connection 0 ''t0'', Connection 1 ''t0''] server_start)) =
     clients (run [Connection 0 ''t0'', Connection 1 ''t0''] server_start) \<and>
   (\<forall>t. Connection 0 t \<notin>
      set [Message 1 ''t1'' (Json (JObj [(''user'', JStr ''Bob''), (''message'', JStr ''hi'')]))]) \<and>
   sent (sockets (run
        [Message 1 ''t1'' (Json (JObj [(''user'', JStr ''Bob''), (''message'', JStr ''hi'')]))]
        (step (Close 0) (run [Connection 0 ''t0'', Connection 1 ''t0''] server_start))) 0) =
     [welcome_message ''t0'']"
  using registry_membership
    [of 0 "[Connection 0 ''t0'', Connection 1 ''t0'', Close 0,
        Message 1 ''t1'' (Json (JObj [(''user'', JStr ''Bob''), (''message'', JStr ''hi'')]))]"
        "run [Connection 0 ''t0'', Connection 1 ''t0''] server_start"
        "[Message 1 ''t1'' (Json (JObj [(''user'', JStr ''Bob''), (''message'', JStr ''hi'')]))]"]
    registry_membership
    [of 5 "[]" "run [Connection 0 ''t0'', Connection 1 ''t0''] server_start" "[]"]
  by (simp add: relay_eval)

subsection \<open>C7: leaving\<close>

text \<open>
  Claim C7 says that \<open>leave()\<close> returns the session to the disconnected state.
  \<open>logout\<close> never assigns \<open>connectionStatus\<close>: in a connected session it is still
  \<open>connected\<close> when \<open>logout\<close> returns.
\<close>

theorem leave_keeps_status_counterexample:
  "connectionStatus (logout
      (client_run [TypeName ''Alice'', JoinChat, RunEffect, SocketState OPEN, Opened]
         (session_start (\<lambda>k. None)))) \<noteq> Disconnected \<and>
   connectionStatus (logout
      (client_run [TypeName ''Alice'', JoinChat, RunEffect, SocketState OPEN, Opened]
         (session_start (\<lambda>k. None)))) = Connected"
  by (simp add: session_eval)

text \<open>
  Claim C7, as the code has it: \<open>logout\<close> can be called in every state and is
  idempotent. It clears the message sequence and the Identity, and closes the connection
  if there is one, which is then closing or closed. It leaves the connection status as it
  is: the status becomes \<open>disconnected\<close> when the close event of that connection is
  handled, and it is \<open>disconnected\<close> already in every reachable state without a
  connection. A second \<open>logout\<close> leaves the state exactly as the first left it, and so
  does a second close event for the same connection at the relay, for its registry and its
  connections.
\<close>

theorem leave_idempotent:
  "messages (logout s) = [] \<and> username (logout s) = [] \<and> hasJoined (logout s) = False \<and>
   ws_current (logout s) = map_option ws_close (ws_current s) \<and>
   (\<forall>sock. ws_current (logout s) = Some sock \<longrightarrow>
      readyState sock = CLOSING \<or> readyState sock = CLOSED) \<and>
   connectionStatus (logout s) = connectionStatus s \<and>
   (ws_current s \<noteq> None \<longrightarrow> connectionStatus (client_step Closed (logout s)) = Disconnected) \<and>
   (ws_current (client_run evs (session_start storage)) = None \<longrightarrow>
      connectionStatus (client_run evs (session_start storage)) = Disconnected) \<and>
   logout (logout s) = logout s \<and>
   core (step (Close c) (step (Close c) r)) = core (step (Close c) r) \<and>
   clients (on_close c (on_close c r)) = clients (on_close c r)"
proof (intro conjI)
  show "\<forall>sock. ws_current (logout s) = Some sock \<longrightarrow>
      readyState sock = CLOSING \<or> readyState sock = CLOSED"
    using ws_close_readyState by (auto simp add: logout_def)
  show "ws_current s \<noteq> None \<longrightarrow> connectionStatus (client_step Closed (logout s)) = Disconnected"
    by (auto simp add: logout_def onclose_def say_def)
  show "ws_current (client_run evs (session_start storage)) = None \<longrightarrow>
      connectionStatus (client_run evs (session_start storage)) = Disconnected"
    by (rule status_inv_run) (simp add: session_start_def)
  show "logout (logout s) = logout s"
    by (rule logout_idem)
  show "core (step (Close c) (step (Close c) r)) = core (step (Close c) r)"
    by (rule core_close_twice)
  show "clients (on_close c (on_close c r)) = clients (on_close c r)"
    by (simp add: on_close_def set_delete_def)
qed (simp_all add: logout_def)

text \<open>
  C7 for a connected session, for a session that never joined, and for a relay with two
  connections.
\<close>

theorem leave_idempotent_witness:
  "ws_current (logout
      (client_run [TypeName ''Alice'', JoinChat, RunEffect, SocketState OPEN, Opened]
         (session_start (\<lambda>k. None)))) = Some \<lparr>readyState = CLOSING, sent = []\<rparr> \<and>
   ws_current (client_run [TypeName ''Alice'', JoinChat, RunEffect, SocketState OPEN, Opened]
         (session_start (\<lambda>k. None))) \<noteq> None \<and>
   connectionStatus (client_step Closed (logout
      (client_run [TypeName ''Alice'', JoinChat, RunEffect, SocketState OPEN, Opened]
         (session_start (\<lambda>k. None))))) = Disconnected \<and>
   ws_current (client_run [TypeName ''Alice'', Logout] (session_start (\<lambda>k. None))) = None \<and>
   connectionStatus (client_run [TypeName ''Alice'', Logout] (session_start (\<lambda>k. None))) =
     Disconnected \<and>
   clients (on_close 0 (on_close 0 (run [Connection 0 ''t0'', Connection 1 ''t0''] server_start)))
     = [1]"
  using leave_idempotent
    [of "client_run [TypeName ''Alice'', JoinChat, RunEffect, SocketState OPEN, Opened]
           (session_start (\<lambda>k. None))"
        "[TypeName ''Alice'', Logout]" "\<lambda>k. None" 0
        "run [Connection 0 ''t0'', Connection 1 ''t0''] server_start"]
  by (simp add: session_eval relay_eval)

subsection \<open>C8: sending\<close>

text \<open>
  Claim C8 says that every non-empty text sent from the connected state is transmitted
  as the body of the Message. \<open>sendMessage\<close> trims the text first: the body of
  \<open>'' hi''\<close> is \<open>''hi''\<close>, and a text of two spaces is not sent at all. And it tests
  the socket, not the session state: in the connected state, with a socket that is already
  closing, nothing is sent.
\<close>

theorem send_not_as_given_counterexample:
  "socket_open (client_run [TypeName ''Alice'', JoinChat, RunEffect, SocketState OPEN, Opened,
                   TypeInput '' hi''] (session_start (\<lambda>k. None))) \<and>
   connectionStatus (client_run [TypeName ''Alice'', JoinChat, RunEffect, SocketState OPEN, Opened,
                   TypeInput '' hi''] (session_start (\<lambda>k. None))) = Connected \<and>
   map_option sent (ws_current (sendMessage ''t1''
      (client_run [TypeName ''Alice'', JoinChat, RunEffect, SocketState OPEN, Opened,
                   TypeInput '' hi''] (session_start (\<lambda>k. None))))) =
     Some [JObj [(''type'', JStr ''message''), (''user'', JStr ''Alice''),
                 (''message'', JStr ''hi''), (''timestamp'', JStr ''t1'')]] \<and>
   ''hi'' \<noteq> '' hi'' \<and>
   connectionStatus (client_run [TypeName ''Alice'', JoinChat, RunEffect, SocketState OPEN, Opened,
                   TypeInput ''  ''] (session_start (\<lambda>k. None))) = Connected \<and>
   ''  '' \<noteq> [] \<and>
   map_option sent (ws_current (sendMessage ''t1''
      (client_run [TypeName ''Alice'', JoinChat, RunEffect, SocketState OPEN, Opened,
                   TypeInput ''  ''] (session_start (\<lambda>k. None))))) = Some [] \<and>
   connectionStatus (client_run [TypeName ''Alice'', JoinChat, RunEffect, SocketState OPEN, Opened,
                   SocketState CLOSING, TypeInput ''hi''] (session_start (\<lambda>k. None))) = Connected \<and>
   map_option sent (ws_current (sendMessage ''t1''
      (client_run [TypeName ''Alice'', JoinChat, RunEffect, SocketState OPEN, Opened,
                   SocketState CLOSING, TypeInput ''hi''] (session_start (\<lambda>k. None))))) = Some []"
  by (simp add: session_eval)

text \<open>
  Claim C8, as the code has it: for every text that is non-empty after trimming,
  \<open>sendMessage\<close>, called while the session's socket is open (its \<open>readyState\<close> is
  \<open>OPEN\<close>, which is what \<open>sendMessage\<close> tests, whatever the session state), constructs a
  Message of kind \<open>message\<close> with the session's Identity as \<open>user\<close>, the trimmed text as
  body and the client's time as provisional timestamp, and transmits exactly that
  Message.
\<close>

theorem send_transmits_trimmed:
  assumes "trim (inputMessage s) \<noteq> []" and "ws_current s = Some sock" and "readyState sock = OPEN"
  shows "ws_current (sendMessage now s) =
           Some (sock\<lparr>sent := sent sock @
             [JObj [(''type'', JStr ''message''),
                    (''user'', JStr (username s)),
                    (''message'', JStr (trim (inputMessage s))),
                    (''timestamp'', JStr now)]]\<rparr>) \<and>
         messages (sendMessage now s) = messages s \<and>
         username (sendMessage now s) = username s"
  using assms by (simp add: sendMessage_def socket_open_def say_def ws_send_def)

text \<open>C8 for the text \<open>'' hi there ''\<close>, typed by Alice.\<close>

theorem send_transmits_trimmed_witness:
  "trim '' hi there '' = ''hi there'' \<and>
   ws_current (sendMessage ''t1''
      (client_run [TypeName ''Alice'', JoinChat, RunEffect, SocketState OPEN, Opened,
                   TypeInput '' hi there ''] (session_start (\<lambda>k. None)))) =
     Some \<lparr>readyState = OPEN,
           sent = [JObj [(''type'', JStr ''message''), (''user'', JStr ''Alice''),
                         (''message'', JStr ''hi there''), (''timestamp'', JStr ''t1'')]]\<rparr>"
  using send_transmits_trimmed
    [of "client_run [TypeName ''Alice'', JoinChat, RunEffect, SocketState OPEN, Opened,
                   TypeInput '' hi there ''] (session_start (\<lambda>k. None))"
        "\<lparr>readyState = OPEN, sent = []\<rparr>" "''t1''"]
  by (simp add: session_eval)

subsection \<open>C9: sends that do nothing\<close>

text \<open>
  Claim C9 says that a send from any state other than connected transmits nothing.
  \<open>sendMessage\<close> never reads the session state. A session joins, leaves and joins
  again; the new socket opens, and then the close event of the first socket arrives: the
  session is in the disconnected state, its socket is open, and \<open>sendMessage\<close>
  transmits.
\<close>

theorem send_in_disconnected_state_counterexample:
  "connectionStatus (client_run
      [TypeName ''Alice'', JoinChat, RunEffect, Logout,
       TypeName ''Alice'', JoinChat, RunEffect, SocketState OPEN, Opened, Closed,
       TypeInput ''hi''] (session_start (\<lambda>k. None))) = Disconnected \<and>
   map_option sent (ws_current (client_run
      [TypeName ''Alice'', JoinChat, RunEffect, Logout,
       TypeName ''Alice'', JoinChat, RunEffect, SocketState OPEN, Opened, Closed,
       TypeInput ''hi''] (session_start (\<lambda>k. None)))) = Some [] \<and>
   map_option sent (ws_current (sendMessage ''t1'' (client_run
      [TypeName ''Alice'', JoinChat, RunEffect, Logout,
       TypeName ''Alice'', JoinChat, RunEffect, SocketState OPEN, Opened, Closed,
       TypeInput ''hi''] (session_start (\<lambda>k. None))))) =
     Some [JObj [(''type'', JStr ''message''), (''user'', JStr ''Alice''),
                 (''message'', JStr ''hi''), (''timestamp'', JStr ''t1'')]]"
  by (simp add: session_eval)

text \<open>
  Claim C9, as the code has it: \<open>sendMessage\<close> with an empty text, or while the
  session's socket is not open (there is no socket, or its \<open>readyState\<close> is not
  \<open>OPEN\<close>), transmits nothing and leaves the message sequence, and so its length,
  unchanged. More exactly: nothing is transmitted if and only if the trimmed text is empty
  or the socket is not open; with an empty text the whole state is unchanged; and
  \<open>sendMessage\<close> changes neither the message sequence nor the session state in any
  case.
\<close>

theorem send_without_text_or_open_socket:
  "(inputMessage s = [] \<or> \<not> socket_open s \<longrightarrow>
      ws_current (sendMessage now s) = ws_current s) \<and>
   (ws_current (sendMessage now s) = ws_current s \<longleftrightarrow>
      trim (inputMessage s) = [] \<or> \<not> socket_open s) \<and>
   (inputMessage s = [] \<longrightarrow> sendMessage now s = s) \<and>
   messages (sendMessage now s) = messages s \<and>
   length (messages (sendMessage now s)) = length (messages s) \<and>
   connectionStatus (sendMessage now s) = connectionStatus s"
  by (auto simp add: sendMessage_unchanged_iff trim_Nil)
     (simp_all add: sendMessage_def say_def trim_Nil Let_def)

text \<open>
  C9 for a connected session with an empty input and one received message, and for a
  session whose socket is still connecting.
\<close>

theorem send_without_text_or_open_socket_witness:
  "inputMessage (client_run [TypeName ''Alice'', JoinChat, RunEffect, SocketState OPEN, Opened,
        Received (Json (JObj [(''user'', JStr ''Bob''), (''message'', JStr ''hi'')]))]
        (session_start (\<lambda>k. None))) = [] \<and>
   ws_current (sendMessage ''t1''
      (client_run [TypeName ''Alice'', JoinChat, RunEffect, SocketState OPEN, Opened,
        Received (Json (JObj [(''user'', JStr ''Bob''), (''message'', JStr ''hi'')]))]
        (session_start (\<lambda>k. None)))) = Some \<lparr>readyState = OPEN, sent = []\<rparr> \<and>
   length (messages (sendMessage ''t1''
      (client_run [TypeName ''Alice'', JoinChat, RunEffect, SocketState OPEN, Opened,
        Received (Json (JObj [(''user'', JStr ''Bob''), (''message'', JStr ''hi'')]))]
        (session_start (\<lambda>k. None))))) = 1 \<and>
   \<not> socket_open (client_run [TypeName ''Alice'', JoinChat, RunEffect, TypeInput ''hi'']
        (session_start (\<lambda>k. None))) \<and>
   ws_current (sendMessage ''t1''
      (client_run [TypeName ''Alice'', JoinChat, RunEffect, TypeInput ''hi'']
        (session_start (\<lambda>k. None)))) = Some \<lparr>readyState = CONNECTING, sent = []\<rparr>"
  using send_without_text_or_open_socket
    [of "client_run [TypeName ''Alice'', JoinChat, RunEffect, SocketState OPEN, Opened,
        Received (Json (JObj [(''user'', JStr ''Bob''), (''message'', JStr ''hi'')]))]
        (session_start (\<lambda>k. None))" "''t1''"]
    send_without_text_or_open_socket
    [of "client_run [TypeName ''Alice'', JoinChat, RunEffect, TypeInput ''hi'']
        (session_start (\<lambda>k. None))" "''t1''"]
  by (simp add: session_eval)

subsection \<open>C10: what the session appends\<close>

text \<open>
  Claim C10 says that a payload that is neither \<open>system\<close> nor \<open>register\<close> is
  appended only when user and body are non-empty strings. The handler tests truthiness:
  a payload whose user is the number 1 and whose body is \<open>true\<close> is appended.
\<close>

theorem session_appends_non_string_counterexample:
  "messages (client_run [TypeName ''Alice'', JoinChat, RunEffect, SocketState OPEN, Opened]
         (session_start (\<lambda>k. None))) = [] \<and>
   messages (onmessage (Json (JObj [(''user'', JNum 1), (''message'', JBool True)]))
      (client_run [TypeName ''Alice'', JoinChat, RunEffect, SocketState OPEN, Opened]
         (session_start (\<lambda>k. None)))) =
     [JObj [(''user'', JNum 1), (''message'', JBool True), (''isMine'', JBool False)]]"
  by (simp add: session_eval)

text \<open>
  Claim C10, as the code has it: the session appends a payload that is neither \<open>system\<close>
  nor \<open>register\<close> exactly when its user and its body are both truthy. Otherwise the
  payload is reported as of unknown format and the state is unchanged, the console apart.
  A property is truthy when it is present and, if it is a string, non-empty: a payload
  with a missing or empty user, or a missing or empty body, is not appended.
\<close>

theorem session_appends_only_truthy:
  assumes "get_prop v ''type'' = Inr ty" and "ty \<noteq> JStr ''system''" and "ty \<noteq> JStr ''register''"
  shows "(messages (onmessage (Json v) s) \<noteq> messages s \<longleftrightarrow>
            truthy (read_prop v ''user'') \<and> truthy (read_prop v ''message'')) \<and>
         (\<not> (truthy (read_prop v ''user'') \<and> truthy (read_prop v ''message'')) \<longrightarrow>
            onmessage (Json v) s =
              s\<lparr>client_log := client_log s @
                   [Log ''Received message from server'', Log ''Parsed message data'',
                    Warn ''Unknown message format'']\<rparr>) \<and>
         (\<forall>fs. v = JObj fs \<longrightarrow>
            (truthy (read_prop v ''user'') \<longleftrightarrow>
               (case map_of fs ''user'' of
                  None \<Rightarrow> False | Some (JStr u) \<Rightarrow> u \<noteq> [] | Some x \<Rightarrow> truthy x)) \<and>
            (truthy (read_prop v ''message'') \<longleftrightarrow>
               (case map_of fs ''message'' of
                  None \<Rightarrow> False | Some (JStr t) \<Rightarrow> t \<noteq> [] | Some x \<Rightarrow> truthy x)))"
proof (intro conjI)
  show "messages (onmessage (Json v) s) \<noteq> messages s \<longleftrightarrow>
            truthy (read_prop v ''user'') \<and> truthy (read_prop v ''message'')"
  proof (cases "truthy (read_prop v ''user'') \<and> truthy (read_prop v ''message'')")
    case True
    then show ?thesis
      by (simp add: onmessage_user [OF assms])
  next
    case False
    then show ?thesis
      by (simp add: onmessage_unknown [OF assms])
  qed
  show "\<not> (truthy (read_prop v ''user'') \<and> truthy (read_prop v ''message'')) \<longrightarrow>
            onmessage (Json v) s =
              s\<lparr>client_log := client_log s @
                   [Log ''Received message from server'', Log ''Parsed message data'',
                    Warn ''Unknown message format'']\<rparr>"
    using onmessage_unknown [OF assms] by blast
  show "\<forall>fs. v = JObj fs \<longrightarrow>
            (truthy (read_prop v ''user'') \<longleftrightarrow>
               (case map_of fs ''user'' of
                  None \<Rightarrow> False | Some (JStr u) \<Rightarrow> u \<noteq> [] | Some x \<Rightarrow> truthy x)) \<and>
            (truthy (read_prop v ''message'') \<longleftrightarrow>
               (case map_of fs ''message'' of
                  None \<Rightarrow> False | Some (JStr t) \<Rightarrow> t \<noteq> [] | Some x \<Rightarrow> truthy x))"
    by (auto simp add: read_prop_object split: option.splits jsval.splits)
qed

text \<open>
  C10 for Bob's Message with an empty body and for a Message without a user, neither of
  which Alice's session appends, and for Bob's Message \<open>hi\<close>, which it does.
\<close>

theorem session_appends_only_truthy_witness:
  "get_prop (JObj [(''type'', JStr ''message''), (''user'', JStr ''Bob''), (''message'', JStr '''')])
      ''type'' = Inr (JStr ''message'') \<and>
   messages (onmessage
      (Json (JObj [(''type'', JStr ''message''), (''user'', JStr ''Bob''), (''message'', JStr '''')]))
      (client_run [TypeName ''Alice'', JoinChat, RunEffect, SocketState OPEN, Opened]
         (session_start (\<lambda>k. None)))) = [] \<and>
   messages (onmessage
      (Json (JObj [(''type'', JStr ''message''), (''message'', JStr ''hi'')]))
      (client_run [TypeName ''Alice'', JoinChat, RunEffect, SocketState OPEN, Opened]
         (session_start (\<lambda>k. None)))) = [] \<and>
   messages (onmessage
      (Json (JObj [(''type'', JStr ''message''), (''user'', JStr ''Bob''), (''message'', JStr ''hi'')]))
      (client_run [TypeName ''Alice'', JoinChat, RunEffect, SocketState OPEN, Opened]
         (session_start (\<lambda>k. None)))) \<noteq> []"
  using session_appends_only_truthy
    [of "JObj [(''type'', JStr ''message''), (''user'', JStr ''Bob''), (''message'', JStr '''')]"
        "JStr ''message''"
        "client_run [TypeName ''Alice'', JoinChat, RunEffect, SocketState OPEN, Opened]
           (session_start (\<lambda>k. None))"]
    session_appends_only_truthy
    [of "JObj [(''type'', JStr ''message''), (''message'', JStr ''hi'')]"
        "JStr ''message''"
        "client_run [TypeName ''Alice'', JoinChat, RunEffect, SocketState OPEN, Opened]
           (session_start (\<lambda>k. None))"]
    session_appends_only_truthy
    [of "JObj [(''type'', JStr ''message''), (''user'', JStr ''Bob''), (''message'', JStr ''hi'')]"
        "JStr ''message''"
        "client_run [TypeName ''Alice'', JoinChat, RunEffect, SocketState OPEN, Opened]
           (session_start (\<lambda>k. None))"]
  by (simp add: session_eval)

end
